theory Spec2Isabelle
  imports Main
begin

section \<open>Values, errors and the log\<close>

text \<open>
  Python values as far as the payloads of this SDK use them: \<open>None\<close>, booleans,
  integers, strings, lists and dictionaries (in insertion order, keys are strings), and
  the builtin class \<open>object\<close>, which \<open>Feature.__init__\<close> uses as a default.
  A string argument that may be \<open>None\<close> is a \<open>string option\<close>.
\<close>

datatype py_value =
    PNone
  | PBool bool
  | PInt int
  | PStr string
  | PList "py_value list"
  | PDict "(string \<times> py_value) list"
  | PObject

type_synonym py_dict = "(string \<times> py_value) list"

text \<open>The exceptions that the modelled code can raise.\<close>

datatype py_error =
    SingletonException
  | AttributeError
  | TypeError
  | ValueError

text \<open>
  The constants of \<open>config_messages\<close>. The module is not part of the sources at hand,
  so a message is identified by its name, not by its text.
\<close>

datatype config_message =
    REGION_ERROR
  | APIKEY_ERROR
  | GUID_ERROR
  | COLLECTION_INIT_ERROR
  | COLLECTION_ID_VALUE_ERROR
  | ENVIRONMENT_ID_VALUE_ERROR
  | CONFIGURATION_FILE_NOT_FOUND_ERROR
  | SINGLETON_EXCEPTION

text \<open>One entry per call of \<open>Logger.error\<close> or \<open>Logger.debug\<close>, in call order.\<close>

datatype log_entry =
    LogError config_message
  | LogErrorText string
  | LogDebugText string

text \<open>
  Modelled from the spec: \<open>Validators.validate_string\<close> (the module is not part of the
  sources at hand); the spec requires "non-empty strings", and the tests pass \<open>None\<close>.
\<close>

definition validate_string :: "string option \<Rightarrow> bool" where
  "validate_string v = (case v of None \<Rightarrow> False | Some s \<Rightarrow> s \<noteq> [])"

section \<open>The Feature model\<close>

text \<open>
  Modelled from the spec: \<open>ConfigurationType\<close> (the enum's module is not part of the
  sources at hand); the spec lists the members BOOLEAN, NUMERIC and STRING. Calling an
  \<open>Enum\<close> class on a member returns the member, on a member's value the member of that
  value, and raises \<open>ValueError\<close> on anything else. The members' values are taken to be
  their names.
\<close>

datatype configuration_type = BOOLEAN | NUMERIC | STRING

datatype type_arg = Member configuration_type | Value py_value

definition ConfigurationType :: "type_arg \<Rightarrow> py_error + configuration_type" where
  "ConfigurationType a =
     (case a of
        Member m \<Rightarrow> Inr m
      | Value v \<Rightarrow>
          (if v = PStr ''BOOLEAN'' then Inr BOOLEAN
           else if v = PStr ''NUMERIC'' then Inr NUMERIC
           else if v = PStr ''STRING'' then Inr STRING
           else Inl ValueError))"

text \<open>\<open>dict.get(key, default)\<close>; a well-formed dictionary has each key once.\<close>

definition dict_get :: "py_dict \<Rightarrow> string \<Rightarrow> py_value \<Rightarrow> py_value" where
  "dict_get d k dflt = (case map_of d k of None \<Rightarrow> dflt | Some v \<Rightarrow> v)"

text \<open>\<open>dict.get(key)\<close>, whose default is \<open>None\<close>.\<close>

definition dict_get_none :: "py_dict \<Rightarrow> string \<Rightarrow> py_value" where
  "dict_get_none d k = dict_get d k PNone"

record feature =
  enabled :: py_value
  name :: py_value
  feature_id :: py_value
  segment_rules :: py_value
  feature_data :: py_dict
  feature_type :: configuration_type
  disabled_value :: py_value
  enabled_value :: py_value

text \<open>
  \<open>Feature.__init__(feature_list)\<close>: every field is read with \<open>dict.get\<close>; the
  type goes through \<open>ConfigurationType\<close>, which can raise.
\<close>

definition Feature :: "py_dict \<Rightarrow> py_error + feature" where
  "Feature feature_list =
     (case ConfigurationType
             (if dict_get_none feature_list ''type'' \<noteq> PNone
              then Value (dict_get_none feature_list ''type'')
              else Member NUMERIC) of
        Inl e \<Rightarrow> Inl e
      | Inr t \<Rightarrow>
          Inr \<lparr> enabled = dict_get feature_list ''enabled'' (PBool False),
                name = dict_get feature_list ''name'' (PStr ''''),
                feature_id = dict_get feature_list ''feature_id'' (PStr ''''),
                segment_rules = dict_get feature_list ''segment_rules'' (PList []),
                feature_data = feature_list,
                feature_type = t,
                disabled_value = dict_get feature_list ''disabled_value'' PObject,
                enabled_value = dict_get feature_list ''enabled_value'' PObject \<rparr>)"

section \<open>The configuration handler, as far as the facade sees it\<close>

text \<open>
  \<open>ConfigurationHandler\<close> is a singleton whose module is not part of the sources at
  hand. Its state is a type parameter \<open>'h\<close>, the \<open>Property\<close> class is a type
  parameter \<open>'p\<close>, and its methods are the fields of a record of functions on that
  state. Following the spec's error policy (failures are handled where they occur and
  turned into a logged message and a default value), a handler method returns normally.
\<close>

record ('h, 'p) handler_ops =
  handler_init ::
    "string option \<Rightarrow> string option \<Rightarrow> string option \<Rightarrow> string option \<Rightarrow> 'h \<Rightarrow> 'h"
  handler_set_context ::
    "string option \<Rightarrow> string option \<Rightarrow> string option \<Rightarrow> bool option \<Rightarrow> 'h \<Rightarrow> 'h"
  load_data :: "'h \<Rightarrow> 'h"
  handler_get_feature :: "string option \<Rightarrow> 'h \<Rightarrow> feature option \<times> 'h"
  handler_get_features :: "'h \<Rightarrow> (string \<times> feature) list option \<times> 'h"
  handler_get_property :: "string option \<Rightarrow> 'h \<Rightarrow> 'p option \<times> 'h"
  handler_get_properties :: "'h \<Rightarrow> (string \<times> 'p) list option \<times> 'h"

text \<open>
  Every call of a handler method is recorded, in call order, so that "the handler is not
  invoked" and "exactly one load" can be stated whatever the methods do.
\<close>

datatype handler_call =
    HGetInstance
  | HInit "string option" "string option" "string option" "string option"
  | HSetContext "string option" "string option" "string option" "bool option"
  | HLoadData
  | HGetFeature "string option"
  | HGetFeatures
  | HGetProperty "string option"
  | HGetProperties
  | HFeatureEvaluation feature string py_dict

section \<open>The AppConfiguration facade\<close>

text \<open>The reference held by \<open>__configuration_handler_instance\<close>: the singleton.\<close>

datatype handler_ref = ConfigurationHandler_instance

text \<open>
  The fields of an \<open>AppConfiguration\<close> object; \<open>override_server_host\<close> is the class
  attribute that \<open>__setup_configuration_handler\<close> reads through \<open>self\<close>.
\<close>

record app_configuration =
  apikey :: "string option"
  region :: "string option"
  configuration_handler_instance :: "handler_ref option"
  guid :: "string option"
  is_initialized :: bool
  is_initialized_configuration :: bool
  is_loading :: bool
  override_server_host :: "string option"

text \<open>
  What a facade method can read and change: the object itself, the handler singleton,
  the log and the record of handler calls.
\<close>

record 'h world =
  session :: app_configuration
  handler :: 'h
  log :: "log_entry list"
  calls :: "handler_call list"

definition Logger_error :: "config_message \<Rightarrow> 'h world \<Rightarrow> 'h world" where
  "Logger_error m w = w\<lparr>log := log w @ [LogError m]\<rparr>"

definition call_handler :: "handler_call \<Rightarrow> ('h \<Rightarrow> 'h) \<Rightarrow> 'h world \<Rightarrow> 'h world" where
  "call_handler c f w = w\<lparr>handler := f (handler w), calls := calls w @ [c]\<rparr>"

text \<open>The fields as \<open>__init__\<close> sets them.\<close>

definition new_app_configuration :: app_configuration where
  "new_app_configuration =
     \<lparr> apikey = Some [], region = Some [], configuration_handler_instance = None,
       guid = Some [], is_initialized = False, is_initialized_configuration = False,
       is_loading = False, override_server_host = None \<rparr>"

text \<open>
  \<open>__setup_configuration_handler\<close>: fetch the singleton, keep the reference, and
  initialise the handler with the stored credentials.
\<close>

definition setup_configuration_handler :: "('h, 'p) handler_ops \<Rightarrow> 'h world \<Rightarrow> 'h world" where
  "setup_configuration_handler ops w =
     (let w1 = call_handler HGetInstance id w;
          w2 = w1\<lparr>session := (session w1)
                  \<lparr>configuration_handler_instance := Some ConfigurationHandler_instance\<rparr>\<rparr>;
          s = session w2
      in call_handler (HInit (apikey s) (guid s) (region s) (override_server_host s))
           (handler_init ops (apikey s) (guid s) (region s) (override_server_host s)) w2)"

text \<open>\<open>init(region, guid, apikey)\<close>: the checks in the order of the source.\<close>

definition init ::
  "('h, 'p) handler_ops \<Rightarrow> string option \<Rightarrow> string option \<Rightarrow> string option \<Rightarrow>
   'h world \<Rightarrow> (py_error + unit) \<times> 'h world" where
  "init ops region_arg guid_arg apikey_arg w =
     (if \<not> validate_string region_arg then (Inr (), Logger_error REGION_ERROR w)
      else if \<not> validate_string apikey_arg then (Inr (), Logger_error APIKEY_ERROR w)
      else if \<not> validate_string guid_arg then (Inr (), Logger_error GUID_ERROR w)
      else (Inr (),
            setup_configuration_handler ops
              (w\<lparr>session := (session w)
                   \<lparr>apikey := apikey_arg, region := region_arg, guid := guid_arg,
                    is_initialized := True, is_loading := False\<rparr>\<rparr>)))"

text \<open>
  \<open>__load_data_now\<close>. A method call on \<open>__configuration_handler_instance\<close> raises
  \<open>AttributeError\<close> while the field is \<open>None\<close>; the flag is then left set.
\<close>

definition load_data_now ::
  "('h, 'p) handler_ops \<Rightarrow> 'h world \<Rightarrow> (py_error + unit) \<times> 'h world" where
  "load_data_now ops w =
     (if is_loading (session w) then (Inr (), w)
      else
        (let w1 = w\<lparr>session := (session w)\<lparr>is_loading := True\<rparr>\<rparr>
         in case configuration_handler_instance (session w1) of
              None \<Rightarrow> (Inl AttributeError, w1)
            | Some _ \<Rightarrow>
                (let w2 = call_handler HLoadData (load_data ops) w1
                 in (Inr (), w2\<lparr>session := (session w2)\<lparr>is_loading := False\<rparr>\<rparr>))))"

text \<open>
  \<open>set_context(collection_id, environment_id, configuration_file,
  live_config_update_enabled)\<close>; \<open>not live_config_update_enabled\<close> holds for \<open>False\<close>
  and for \<open>None\<close>.
\<close>

definition set_context ::
  "('h, 'p) handler_ops \<Rightarrow> string option \<Rightarrow> string option \<Rightarrow> string option \<Rightarrow>
   bool option \<Rightarrow> 'h world \<Rightarrow> (py_error + unit) \<times> 'h world" where
  "set_context ops collection_id environment_id configuration_file
       live_config_update_enabled w =
     (if \<not> is_initialized (session w) then (Inr (), Logger_error COLLECTION_INIT_ERROR w)
      else if \<not> validate_string collection_id
        then (Inr (), Logger_error COLLECTION_ID_VALUE_ERROR w)
      else if \<not> validate_string environment_id
        then (Inr (), Logger_error ENVIRONMENT_ID_VALUE_ERROR w)
      else
        (let w1 = w\<lparr>session := (session w)\<lparr>is_initialized_configuration := True\<rparr>\<rparr>
         in if live_config_update_enabled \<noteq> Some True \<and> configuration_file = None
            then (Inr (), Logger_error CONFIGURATION_FILE_NOT_FOUND_ERROR w1)
            else
              (case configuration_handler_instance (session w1) of
                 None \<Rightarrow> (Inl AttributeError, w1)
               | Some _ \<Rightarrow>
                   load_data_now ops
                     (call_handler
                        (HSetContext collection_id environment_id configuration_file
                           live_config_update_enabled)
                        (handler_set_context ops collection_id environment_id
                           configuration_file live_config_update_enabled) w1))))"

text \<open>\<open>fetch_configurations()\<close>.\<close>

definition fetch_configurations ::
  "('h, 'p) handler_ops \<Rightarrow> 'h world \<Rightarrow> (py_error + unit) \<times> 'h world" where
  "fetch_configurations ops w =
     (if is_initialized (session w) \<and> is_initialized_configuration (session w)
      then load_data_now ops w
      else (Inr (), Logger_error COLLECTION_INIT_ERROR w))"

text \<open>
  The four reads have one body: delegate to the handler when both flags are set,
  otherwise log and return \<open>None\<close>.
\<close>

definition delegate_read ::
  "handler_call \<Rightarrow> ('h \<Rightarrow> 'r option \<times> 'h) \<Rightarrow> 'h world \<Rightarrow> (py_error + 'r option) \<times> 'h world" where
  "delegate_read c f w =
     (if is_initialized (session w) \<and> is_initialized_configuration (session w)
      then
        (case configuration_handler_instance (session w) of
           None \<Rightarrow> (Inl AttributeError, w)
         | Some _ \<Rightarrow>
             (Inr (fst (f (handler w))), call_handler c (\<lambda>h. snd (f h)) w))
      else (Inr None, Logger_error COLLECTION_INIT_ERROR w))"

definition get_feature ::
  "('h, 'p) handler_ops \<Rightarrow> string option \<Rightarrow> 'h world \<Rightarrow>
   (py_error + feature option) \<times> 'h world" where
  "get_feature ops fid w = delegate_read (HGetFeature fid) (handler_get_feature ops fid) w"

definition get_features ::
  "('h, 'p) handler_ops \<Rightarrow> 'h world \<Rightarrow>
   (py_error + (string \<times> feature) list option) \<times> 'h world" where
  "get_features ops w = delegate_read HGetFeatures (handler_get_features ops) w"

definition get_properties ::
  "('h, 'p) handler_ops \<Rightarrow> 'h world \<Rightarrow>
   (py_error + (string \<times> 'p) list option) \<times> 'h world" where
  "get_properties ops w = delegate_read HGetProperties (handler_get_properties ops) w"

definition get_property ::
  "('h, 'p) handler_ops \<Rightarrow> string option \<Rightarrow> 'h world \<Rightarrow>
   (py_error + 'p option) \<times> 'h world" where
  "get_property ops pid w = delegate_read (HGetProperty pid) (handler_get_property ops pid) w"

section \<open>Evaluation entry point of a feature\<close>

text \<open>
  \<open>get_current_value(entity_id, entity_attributes)\<close>. The handler's
  \<open>feature_evaluation\<close> is a parameter: it receives the feature object itself, so it
  gives the value it returns or the exception it raises, the feature as it leaves it,
  and the handler's new state. \<open>not entity_id\<close> holds for \<open>None\<close> and for the
  empty string.
\<close>

definition get_current_value ::
  "(feature \<Rightarrow> string \<Rightarrow> py_dict \<Rightarrow> 'h \<Rightarrow> (py_error + py_value) \<times> feature \<times> 'h) \<Rightarrow>
   feature \<Rightarrow> string option \<Rightarrow> py_dict \<Rightarrow> 'h world \<Rightarrow>
   (py_error + py_value) \<times> feature \<times> 'h world" where
  "get_current_value feature_evaluation self entity_id entity_attributes w =
     (case entity_id of
        None \<Rightarrow>
          (Inr PNone, self,
           w\<lparr>log := log w @
                [LogErrorText ''A valid entity id should be passed for this method.'']\<rparr>)
      | Some e \<Rightarrow>
          if e = []
          then (Inr PNone, self,
                w\<lparr>log := log w @
                     [LogErrorText ''A valid entity id should be passed for this method.'']\<rparr>)
          else
            (let w1 = call_handler HGetInstance id w;
                 r = feature_evaluation self e entity_attributes (handler w1)
             in (fst r, fst (snd r),
                 call_handler (HFeatureEvaluation self e entity_attributes)
                   (\<lambda>h. snd (snd r)) w1)))"

section \<open>The singleton\<close>

text \<open>
  Objects are identified by their position in the list of the objects constructed so
  far; \<open>app_instance\<close> is the class attribute \<open>AppConfiguration.__instance\<close>.
\<close>

type_synonym ref = nat

record process =
  app_instance :: "ref option"
  objects :: "app_configuration list"

definition process_start :: process where
  "process_start = \<lparr> app_instance = None, objects = [] \<rparr>"

text \<open>The constructor \<open>AppConfiguration()\<close>: it raises before it sets any field.\<close>

definition AppConfiguration :: "process \<Rightarrow> (py_error + ref) \<times> process" where
  "AppConfiguration p =
     (if app_instance p \<noteq> None then (Inl SingletonException, p)
      else (Inr (length (objects p)),
            p\<lparr>objects := objects p @ [new_app_configuration],
              app_instance := Some (length (objects p))\<rparr>))"

definition get_instance :: "process \<Rightarrow> (py_error + ref) \<times> process" where
  "get_instance p =
     (case app_instance p of None \<Rightarrow> AppConfiguration p | Some r \<Rightarrow> (Inr r, p))"

text \<open>
  What a program can do with the class: ask for the instance, call the constructor, or
  call a method on an object, which assigns fields of that object only.
\<close>

datatype process_op =
    GetInstance
  | Construct
  | MethodCall ref "app_configuration \<Rightarrow> app_configuration"

fun run_op :: "process_op \<Rightarrow> process \<Rightarrow> process" where
  "run_op GetInstance p = snd (get_instance p)"
| "run_op Construct p = snd (AppConfiguration p)"
| "run_op (MethodCall r f) p =
     (if r < length (objects p) then p\<lparr>objects := (objects p)[r := f (objects p ! r)]\<rparr>
      else p)"

definition run_ops :: "process_op list \<Rightarrow> process \<Rightarrow> process" where
  "run_ops os p = fold run_op os p"

text \<open>
  Calls that overlap. The statements of \<open>get_instance\<close> and of the constructor are
  separate steps, and nothing keeps a second thread from running between them:
  \<open>Enter\<close> is the test of \<open>__instance\<close> in \<open>get_instance\<close>, \<open>Check\<close> the
  test in \<open>__init__\<close>, and \<open>Assign\<close> the rest of \<open>__init__\<close>, which sets the
  fields and \<open>__instance\<close>, and the return. \<open>construct\<close> is that rest of the
  constructor. Each thread makes one call of \<open>get_instance\<close>; its status is the last
  entry under its number.
\<close>

definition construct :: "process \<Rightarrow> ref \<times> process" where
  "construct p =
     (length (objects p),
      p\<lparr>objects := objects p @ [new_app_configuration],
        app_instance := Some (length (objects p))\<rparr>)"

datatype call_status = Entered | Checked | Returned ref | Raised py_error

datatype thread_event = Enter nat | Check nat | Assign nat

type_synonym threads = "(nat \<times> call_status) list"

fun thread_step :: "thread_event \<Rightarrow> process \<times> threads \<Rightarrow> process \<times> threads" where
  "thread_step (Enter t) (p, ts) =
     (case app_instance p of
        None \<Rightarrow> (p, (t, Entered) # ts)
      | Some r \<Rightarrow> (p, (t, Returned r) # ts))"
| "thread_step (Check t) (p, ts) =
     (if map_of ts t = Some Entered
      then (if app_instance p \<noteq> None then (p, (t, Raised SingletonException) # ts)
            else (p, (t, Checked) # ts))
      else (p, ts))"
| "thread_step (Assign t) (p, ts) =
     (if map_of ts t = Some Checked
      then (snd (construct p), (t, Returned (fst (construct p))) # ts)
      else (p, ts))"

definition run_threads :: "thread_event list \<Rightarrow> process \<times> threads \<Rightarrow> process \<times> threads" where
  "run_threads evs c = fold thread_step evs c"

section \<open>The API manager\<close>

text \<open>
  The \<open>data\<close> argument of \<open>prepare_api_request\<close>: \<open>None\<close>, a string or a
  dictionary.
\<close>

datatype payload = DNone | DStr string | DDict py_dict

text \<open>The arguments that \<open>prepare_request\<close> receives.\<close>

record request =
  req_method :: string
  req_url :: string
  req_headers :: "(string \<times> string) list"
  req_data :: payload

text \<open>A \<open>DetailedResponse\<close>; the body it carries is a type parameter.\<close>

record 'r detailed_response =
  response :: "'r option"
  resp_headers :: "(string \<times> string) list option"
  status_code :: "int option"

text \<open>
  What \<open>prepare_request\<close> followed by \<open>send\<close> does with a request: it returns a
  response, raises an \<open>ApiException\<close> (with its code and message), or raises another
  \<open>Exception\<close> (with the text that \<open>str\<close> gives).
\<close>

datatype 'r send_outcome =
    Returns "'r detailed_response"
  | RaisesApiException int "string option"
  | RaisesException string

text \<open>
  What the API manager takes from outside its module: \<open>json.dumps\<close>, the base
  service (\<open>prepare_request\<close> and \<open>send\<close>), and the two constants of the user agent.
\<close>

record 'r api_environment =
  json_dumps :: "py_value \<Rightarrow> py_error + string"
  base_service :: "request \<Rightarrow> 'r send_outcome"
  SDK_NAME :: string
  version :: string

text \<open>\<open>__remove_null_values\<close>: a dictionary loses the keys mapped to \<open>None\<close>.\<close>

definition remove_null_values :: "payload \<Rightarrow> payload" where
  "remove_null_values dictionary =
     (case dictionary of
        DDict d \<Rightarrow> DDict (filter (\<lambda>kv. snd kv \<noteq> PNone) d)
      | _ \<Rightarrow> dictionary)"

text \<open>\<open>data and isinstance(data, dict)\<close>: a dictionary that is not empty.\<close>

definition nonempty_dict :: "payload \<Rightarrow> bool" where
  "nonempty_dict data = (case data of DDict d \<Rightarrow> d \<noteq> [] | _ \<Rightarrow> False)"

text \<open>
  The statements in front of the \<open>try\<close>: the headers and the data of the request, or
  the exception that \<open>json.dumps\<close> raises.
\<close>

definition payload_value :: "payload \<Rightarrow> py_value" where
  "payload_value data = (case data of DNone \<Rightarrow> PNone | DStr s \<Rightarrow> PStr s | DDict d \<Rightarrow> PDict d)"

definition prepare_data ::
  "'r api_environment \<Rightarrow> payload \<Rightarrow> py_error + (string \<times> string) list \<times> payload" where
  "prepare_data env data =
     (if nonempty_dict data
      then
        (case json_dumps env (payload_value (remove_null_values data)) of
           Inl e \<Rightarrow> Inl e
         | Inr text \<Rightarrow>
             Inr ([(''Content-Type'', ''application/json''),
                   (''User-Agent'', SDK_NAME env @ ''/'' @ version env)],
                  DStr text))
      else Inr ([], data))"

text \<open>
  \<open>prepare_api_request(method, url, data)\<close>: the result, the requests handed to the
  base service, and the log entries written.
\<close>

definition prepare_api_request ::
  "'r api_environment \<Rightarrow> string \<Rightarrow> string \<Rightarrow> payload \<Rightarrow>
   (py_error + 'r detailed_response) \<times> request list \<times> log_entry list" where
  "prepare_api_request env method url data =
     (case prepare_data env data of
        Inl e \<Rightarrow> (Inl e, [], [])
      | Inr prepared \<Rightarrow>
          (let request =
                 \<lparr> req_method = method, req_url = url, req_headers = fst prepared,
                   req_data = snd prepared \<rparr>
           in case base_service env request of
                Returns r \<Rightarrow> (Inr r, [request], [])
              | RaisesApiException code message \<Rightarrow>
                  (Inr \<lparr> response = None, resp_headers = None, status_code = Some code \<rparr>,
                   [request], [])
              | RaisesException text \<Rightarrow>
                  (Inr \<lparr> response = None, resp_headers = None, status_code = Some 400 \<rparr>,
                   [request],
                   [LogDebugText (''Error in service API call '' @ text)])))"

section \<open>The standard library's JSON encoder\<close>

text \<open>
  \<open>json.dumps\<close> with its default arguments, on the values of \<^typ>\<open>py_value\<close>:
  items are separated by a comma and a space, a key from its value by a colon and a
  space; a string is quoted, with every character outside the printable ASCII range,
  the quote and the backslash escaped; a value that is no JSON value, here the class
  \<open>object\<close>, raises \<open>TypeError\<close>.
\<close>

definition hex_digit :: "nat \<Rightarrow> char" where
  "hex_digit n = ''0123456789abcdef'' ! (n mod 16)"

definition escape_char :: "char \<Rightarrow> string" where
  "escape_char c =
     (if c = CHR 0x22 then [CHR 0x5C, CHR 0x22]
      else if c = CHR 0x5C then [CHR 0x5C, CHR 0x5C]
      else if c = CHR 0x0A then [CHR 0x5C, CHR ''n'']
      else if c = CHR 0x0D then [CHR 0x5C, CHR ''r'']
      else if c = CHR 0x09 then [CHR 0x5C, CHR ''t'']
      else if c = CHR 0x08 then [CHR 0x5C, CHR ''b'']
      else if c = CHR 0x0C then [CHR 0x5C, CHR ''f'']
      else if 32 \<le> (of_char c :: nat) \<and> (of_char c :: nat) \<le> 126 then [c]
      else [CHR 0x5C, CHR ''u'', CHR ''0'', CHR ''0'',
            hex_digit (of_char c div 16), hex_digit (of_char c)])"

definition quote_string :: "string \<Rightarrow> string" where
  "quote_string s = [CHR 0x22] @ concat (map escape_char s) @ [CHR 0x22]"

function digits_of_nat :: "nat \<Rightarrow> string" where
  "digits_of_nat n =
     (if n < 10 then [hex_digit n] else digits_of_nat (n div 10) @ [hex_digit (n mod 10)])"
  by pat_completeness auto
termination
  by (relation "measure id") auto

definition str_of_int :: "int \<Rightarrow> string" where
  "str_of_int i = (if i < 0 then CHR ''-'' # digits_of_nat (nat (- i)) else digits_of_nat (nat i))"

fun join :: "string \<Rightarrow> string list \<Rightarrow> string" where
  "join sep [] = []"
| "join sep [x] = x"
| "join sep (x # y # ys) = x @ sep @ join sep (y # ys)"

fun python_json_dumps :: "py_value \<Rightarrow> py_error + string"
  and dumps_items :: "py_value list \<Rightarrow> py_error + string list"
  and dumps_members :: "(string \<times> py_value) list \<Rightarrow> py_error + string list" where
  "python_json_dumps PNone = Inr ''null''"
| "python_json_dumps (PBool b) = Inr (if b then ''true'' else ''false'')"
| "python_json_dumps (PInt i) = Inr (str_of_int i)"
| "python_json_dumps (PStr s) = Inr (quote_string s)"
| "python_json_dumps (PList vs) =
     (case dumps_items vs of
        Inl e \<Rightarrow> Inl e
      | Inr parts \<Rightarrow> Inr (''['' @ join '', '' parts @ '']''))"
| "python_json_dumps (PDict kvs) =
     (case dumps_members kvs of
        Inl e \<Rightarrow> Inl e
      | Inr parts \<Rightarrow> Inr (''{'' @ join '', '' parts @ ''}''))"
| "python_json_dumps PObject = Inl TypeError"
| "dumps_items [] = Inr []"
| "dumps_items (v # vs) =
     (case python_json_dumps v of
        Inl e \<Rightarrow> Inl e
      | Inr text \<Rightarrow>
          (case dumps_items vs of Inl e \<Rightarrow> Inl e | Inr texts \<Rightarrow> Inr (text # texts)))"
| "dumps_members [] = Inr []"
| "dumps_members (kv # kvs) =
     (case python_json_dumps (snd kv) of
        Inl e \<Rightarrow> Inl e
      | Inr text \<Rightarrow>
          (case dumps_members kvs of
             Inl e \<Rightarrow> Inl e
           | Inr texts \<Rightarrow> Inr ((quote_string (fst kv) @ '': '' @ text) # texts)))"

section \<open>Loads in flight\<close>

text \<open>
  A call of \<open>load_data\<close> takes time: it fetches, parses and replaces the cache. While
  it runs, a listener that it notifies or another thread can call the facade again. To
  speak about such calls, \<open>__load_data_now\<close> is cut at the call of \<open>load_data\<close>:
  \<open>begin_load\<close> runs up to the call and tells whether the call was made,
  \<open>end_load\<close> is the return of \<open>load_data\<close> and the statement after it.
\<close>

definition begin_load :: "'h world \<Rightarrow> (py_error + bool) \<times> 'h world" where
  "begin_load w =
     (if is_loading (session w) then (Inr False, w)
      else
        (let w1 = w\<lparr>session := (session w)\<lparr>is_loading := True\<rparr>\<rparr>
         in case configuration_handler_instance (session w1) of
              None \<Rightarrow> (Inl AttributeError, w1)
            | Some _ \<Rightarrow> (Inr True, w1\<lparr>calls := calls w1 @ [HLoadData]\<rparr>)))"

definition end_load :: "('h, 'p) handler_ops \<Rightarrow> 'h world \<Rightarrow> 'h world" where
  "end_load ops w =
     w\<lparr>handler := load_data ops (handler w), session := (session w)\<lparr>is_loading := False\<rparr>\<rparr>"

text \<open>\<open>set_context\<close> and \<open>fetch_configurations\<close> up to the call of \<open>load_data\<close>.\<close>

definition set_context_begin ::
  "('h, 'p) handler_ops \<Rightarrow> string option \<Rightarrow> string option \<Rightarrow> string option \<Rightarrow>
   bool option \<Rightarrow> 'h world \<Rightarrow> (py_error + bool) \<times> 'h world" where
  "set_context_begin ops collection_id environment_id configuration_file
       live_config_update_enabled w =
     (if \<not> is_initialized (session w)
        then (Inr False, Logger_error COLLECTION_INIT_ERROR w)
      else if \<not> validate_string collection_id
        then (Inr False, Logger_error COLLECTION_ID_VALUE_ERROR w)
      else if \<not> validate_string environment_id
        then (Inr False, Logger_error ENVIRONMENT_ID_VALUE_ERROR w)
      else
        (let w1 = w\<lparr>session := (session w)\<lparr>is_initialized_configuration := True\<rparr>\<rparr>
         in if live_config_update_enabled \<noteq> Some True \<and> configuration_file = None
            then (Inr False, Logger_error CONFIGURATION_FILE_NOT_FOUND_ERROR w1)
            else
              (case configuration_handler_instance (session w1) of
                 None \<Rightarrow> (Inl AttributeError, w1)
               | Some _ \<Rightarrow>
                   begin_load
                     (call_handler
                        (HSetContext collection_id environment_id configuration_file
                           live_config_update_enabled)
                        (handler_set_context ops collection_id environment_id
                           configuration_file live_config_update_enabled) w1))))"

definition fetch_configurations_begin :: "'h world \<Rightarrow> (py_error + bool) \<times> 'h world" where
  "fetch_configurations_begin w =
     (if is_initialized (session w) \<and> is_initialized_configuration (session w)
      then begin_load w
      else (Inr False, Logger_error COLLECTION_INIT_ERROR w))"

text \<open>A call that was cut at \<open>load_data\<close>, run to its end.\<close>

definition complete ::
  "('h, 'p) handler_ops \<Rightarrow> (py_error + bool) \<times> 'h world \<Rightarrow> (py_error + unit) \<times> 'h world" where
  "complete ops r =
     (case fst r of
        Inl e \<Rightarrow> (Inl e, snd r)
      | Inr began \<Rightarrow> (Inr (), if began then end_load ops (snd r) else snd r))"

text \<open>
  A session together with the number of \<open>load_data\<close> calls that were made and have
  not returned. An event is a facade call, run up to its end or up to the call of
  \<open>load_data\<close>, or the return of a \<open>load_data\<close> call that is in flight. The
  four reads are events too: they run to their end.
\<close>

record 'h running =
  world_of :: "'h world"
  in_flight :: nat

datatype event =
    EInit "string option" "string option" "string option"
  | ESetContext "string option" "string option" "string option" "bool option"
  | EFetch
  | ELoadReturns
  | EGetFeature "string option"
  | EGetFeatures
  | EGetProperty "string option"
  | EGetProperties

definition enter :: "(py_error + bool) \<times> 'h world \<Rightarrow> 'h running \<Rightarrow> 'h running" where
  "enter r c =
     \<lparr> world_of = snd r,
       in_flight = (if fst r = Inr True then Suc (in_flight c) else in_flight c) \<rparr>"

fun step :: "('h, 'p) handler_ops \<Rightarrow> event \<Rightarrow> 'h running \<Rightarrow> 'h running" where
  "step ops (EInit region_arg guid_arg apikey_arg) c =
     c\<lparr>world_of := snd (init ops region_arg guid_arg apikey_arg (world_of c))\<rparr>"
| "step ops (ESetContext collection_id environment_id configuration_file live) c =
     enter (set_context_begin ops collection_id environment_id configuration_file live
              (world_of c)) c"
| "step ops EFetch c = enter (fetch_configurations_begin (world_of c)) c"
| "step ops ELoadReturns c =
     (if in_flight c = 0 then c
      else \<lparr> world_of = end_load ops (world_of c), in_flight = in_flight c - 1 \<rparr>)"
| "step ops (EGetFeature fid) c = c\<lparr>world_of := snd (get_feature ops fid (world_of c))\<rparr>"
| "step ops EGetFeatures c = c\<lparr>world_of := snd (get_features ops (world_of c))\<rparr>"
| "step ops (EGetProperty pid) c = c\<lparr>world_of := snd (get_property ops pid (world_of c))\<rparr>"
| "step ops EGetProperties c = c\<lparr>world_of := snd (get_properties ops (world_of c))\<rparr>"

definition run :: "('h, 'p) handler_ops \<Rightarrow> event list \<Rightarrow> 'h running \<Rightarrow> 'h running" where
  "run ops evs c = fold (step ops) evs c"

text \<open>The world of a fresh process: a new facade object, nothing logged, no call made.\<close>

definition fresh_world :: "'h \<Rightarrow> 'h world" where
  "fresh_world h = \<lparr> session = new_app_configuration, handler = h, log = [], calls = [] \<rparr>"

definition start :: "'h \<Rightarrow> 'h running" where
  "start h = \<lparr> world_of = fresh_world h, in_flight = 0 \<rparr>"

text \<open>
  A \<open>set_context\<close> call has got through to the handler: the handler's
  \<open>set_context\<close> is among the calls made, so the update source is bound.
\<close>

fun is_set_context_call :: "handler_call \<Rightarrow> bool" where
  "is_set_context_call (HSetContext collection_id environment_id configuration_file live) = True"
| "is_set_context_call c = False"

definition handler_bound :: "'h world \<Rightarrow> bool" where
  "handler_bound w = list_ex is_set_context_call (calls w)"

text \<open>
  No \<open>init\<close> with three valid arguments happens while a \<open>load_data\<close> call is in
  flight.
\<close>

fun no_init_in_flight :: "('h, 'p) handler_ops \<Rightarrow> event list \<Rightarrow> 'h running \<Rightarrow> bool" where
  "no_init_in_flight ops [] c = True"
| "no_init_in_flight ops (ev # evs) c =
     ((case ev of
         EInit region_arg guid_arg apikey_arg \<Rightarrow>
           in_flight c = 0 \<or>
           \<not> (validate_string region_arg \<and> validate_string apikey_arg \<and>
              validate_string guid_arg)
       | _ \<Rightarrow> True)
      \<and> no_init_in_flight ops evs (step ops ev c))"

section \<open>A handler after the spec\<close>

text \<open>
  Modelled from the spec: the \<open>ConfigurationHandler\<close> and its cache, whose module is
  not part of the sources at hand. The cache holds the current snapshot; \<open>get_feature\<close>,
  \<open>get_features\<close>, \<open>get_property\<close> and \<open>get_properties\<close> are pure lookups over it
  and return "not found" for an unknown id; \<open>set_context\<close> binds the update source;
  \<open>load_data\<close> performs one fetch-parse-replace cycle, and keeps the previous snapshot
  when the fetch fails. What the update source delivers is the parameter \<open>delivered\<close>
  (\<open>None\<close> for a failed fetch).
\<close>

record 'p cache =
  cache_features :: "(string \<times> feature) list"
  cache_properties :: "(string \<times> 'p) list"
  context_set :: bool

definition empty_cache :: "'p cache" where
  "empty_cache = \<lparr> cache_features = [], cache_properties = [], context_set = False \<rparr>"

definition cache_handler ::
  "((string \<times> feature) list \<times> (string \<times> 'p) list) option \<Rightarrow> ('p cache, 'p) handler_ops" where
  "cache_handler delivered =
     \<lparr> handler_init = (\<lambda>apikey_arg guid_arg region_arg host h. h),
       handler_set_context = (\<lambda>collection_id environment_id file live h. h\<lparr>context_set := True\<rparr>),
       load_data =
         (\<lambda>h. if context_set h
               then (case delivered of
                       None \<Rightarrow> h
                     | Some snapshot \<Rightarrow>
                         h\<lparr>cache_features := fst snapshot, cache_properties := snd snapshot\<rparr>)
               else h),
       handler_get_feature =
         (\<lambda>fid h. (case fid of None \<Rightarrow> None | Some i \<Rightarrow> map_of (cache_features h) i, h)),
       handler_get_features = (\<lambda>h. (Some (cache_features h), h)),
       handler_get_property =
         (\<lambda>pid h. (case pid of None \<Rightarrow> None | Some i \<Rightarrow> map_of (cache_properties h) i, h)),
       handler_get_properties = (\<lambda>h. (Some (cache_properties h), h)) \<rparr>"

text \<open>
  A handler of this kind whose update source delivers one boolean feature, \<open>f1\<close>,
  and the calls of a session on it: \<open>init\<close> and \<open>set_context\<close> with a file, as in
  the repository's test.
\<close>

definition example_feature :: feature where
  "example_feature =
     \<lparr> enabled = PBool True, name = PStr ''f1'', feature_id = PStr ''f1'',
       segment_rules = PList [], feature_data = [], feature_type = BOOLEAN,
       disabled_value = PBool False, enabled_value = PBool True \<rparr>"

definition example_handler :: "(unit cache, unit) handler_ops" where
  "example_handler = cache_handler (Some ([(''f1'', example_feature)], []))"

definition example_init :: event where
  "example_init = EInit (Some ''us-south'') (Some ''guid_value'') (Some ''apikey_value'')"

definition example_set_context :: event where
  "example_set_context =
     ESetContext (Some ''collectionId'') (Some ''environmentId'') (Some ''user.json'')
       (Some False)"

text \<open>The session after \<open>init\<close>, and after \<open>init\<close> and \<open>set_context\<close>.\<close>

definition example_initialized :: "unit cache world" where
  "example_initialized =
     snd (init example_handler (Some ''us-south'') (Some ''guid_value'') (Some ''apikey_value'')
            (fresh_world empty_cache))"

definition example_loaded :: "unit cache world" where
  "example_loaded =
     snd (set_context example_handler (Some ''collectionId'') (Some ''environmentId'')
            (Some ''user.json'') (Some False) example_initialized)"

text \<open>
  The session after \<open>init\<close> and a \<open>set_context\<close> with valid ids, live updates off
  and no file.
\<close>

definition example_aborted :: "unit cache world" where
  "example_aborted =
     snd (set_context example_handler (Some ''collectionId'') (Some ''environmentId'') None
            (Some False) example_initialized)"

section \<open>Properties of the Feature model\<close>

lemma ConfigurationType_Member: "ConfigurationType (Member m) = Inr m"
  by (simp add: ConfigurationType_def)

lemma type_arg_cases:
  "(if dict_get_none d ''type'' \<noteq> PNone then Value (dict_get_none d ''type'')
    else Member NUMERIC) =
   (case map_of d ''type'' of
      None \<Rightarrow> Member NUMERIC
    | Some v \<Rightarrow> if v = PNone then Member NUMERIC else Value v)"
  by (simp add: dict_get_none_def dict_get_def split: option.splits)

lemma Feature_Inr_fields:
  assumes "Feature d = Inr f"
  shows "enabled f = dict_get d ''enabled'' (PBool False)"
    and "name f = dict_get d ''name'' (PStr [])"
    and "feature_id f = dict_get d ''feature_id'' (PStr [])"
    and "segment_rules f = dict_get d ''segment_rules'' (PList [])"
    and "ConfigurationType
           (case map_of d ''type'' of
              None \<Rightarrow> Member NUMERIC
            | Some v \<Rightarrow> if v = PNone then Member NUMERIC else Value v) = Inr (feature_type f)"
  using assms unfolding Feature_def type_arg_cases
  by (auto split: sum.splits)

text \<open>
  C5, as amended. For every payload dictionary \<open>d\<close> whose \<open>'type'\<close> is absent, is
  \<open>None\<close>, or is a value that \<open>ConfigurationType\<close> accepts, \<open>Feature(d)\<close> is
  constructed, and \<open>enabled\<close> is \<open>False\<close> when \<open>'enabled'\<close> is absent,
  \<open>segment_rules\<close> is the empty list when \<open>'segment_rules'\<close> is absent, \<open>name\<close> and
  \<open>feature_id\<close> are the empty string when absent, and each of these four is the payload
  value when present; the type is NUMERIC when \<open>'type'\<close> is absent or \<open>None\<close>, and
  otherwise the member that \<open>ConfigurationType\<close> gives for the payload value.
\<close>

theorem Feature_defaults:
  "(case map_of d ''type'' of
      None \<Rightarrow> True
    | Some v \<Rightarrow> v = PNone \<or> (\<exists>t. ConfigurationType (Value v) = Inr t)) \<longrightarrow>
   (\<exists>f. Feature d = Inr f \<and>
      enabled f = (case map_of d ''enabled'' of None \<Rightarrow> PBool False | Some v \<Rightarrow> v) \<and>
      segment_rules f = (case map_of d ''segment_rules'' of None \<Rightarrow> PList [] | Some v \<Rightarrow> v) \<and>
      name f = (case map_of d ''name'' of None \<Rightarrow> PStr [] | Some v \<Rightarrow> v) \<and>
      feature_id f = (case map_of d ''feature_id'' of None \<Rightarrow> PStr [] | Some v \<Rightarrow> v) \<and>
      (case map_of d ''type'' of
         None \<Rightarrow> feature_type f = NUMERIC
       | Some v \<Rightarrow>
           if v = PNone then feature_type f = NUMERIC
           else ConfigurationType (Value v) = Inr (feature_type f)))"
proof
  assume ok: "case map_of d ''type'' of None \<Rightarrow> True
    | Some v \<Rightarrow> v = PNone \<or> (\<exists>t. ConfigurationType (Value v) = Inr t)"
  let ?a = "case map_of d ''type'' of None \<Rightarrow> Member NUMERIC
      | Some v \<Rightarrow> if v = PNone then Member NUMERIC else Value v"
  from ok have "\<exists>t. ConfigurationType ?a = Inr t"
    by (cases "map_of d ''type''") (auto simp: ConfigurationType_Member)
  then obtain t where t: "ConfigurationType ?a = Inr t" ..
  then obtain f where f: "Feature d = Inr f"
    unfolding Feature_def type_arg_cases by simp
  note fs = Feature_Inr_fields [OF f]
  have ty: "case map_of d ''type'' of
         None \<Rightarrow> feature_type f = NUMERIC
       | Some v \<Rightarrow>
           if v = PNone then feature_type f = NUMERIC
           else ConfigurationType (Value v) = Inr (feature_type f)"
    using fs(5) by (cases "map_of d ''type''") (auto simp: ConfigurationType_Member)
  show "\<exists>f. Feature d = Inr f \<and>
      enabled f = (case map_of d ''enabled'' of None \<Rightarrow> PBool False | Some v \<Rightarrow> v) \<and>
      segment_rules f = (case map_of d ''segment_rules'' of None \<Rightarrow> PList [] | Some v \<Rightarrow> v) \<and>
      name f = (case map_of d ''name'' of None \<Rightarrow> PStr [] | Some v \<Rightarrow> v) \<and>
      feature_id f = (case map_of d ''feature_id'' of None \<Rightarrow> PStr [] | Some v \<Rightarrow> v) \<and>
      (case map_of d ''type'' of
         None \<Rightarrow> feature_type f = NUMERIC
       | Some v \<Rightarrow>
           if v = PNone then feature_type f = NUMERIC
           else ConfigurationType (Value v) = Inr (feature_type f))"
    using f fs(1-4) ty unfolding dict_get_def by blast
qed

text \<open>
  The theorem at a payload that gives a feature id and a type and nothing else: the
  other fields take their defaults.
\<close>

theorem Feature_defaults_witness:
  "\<exists>f. Feature [(''feature_id'', PStr ''f1''), (''type'', PStr ''BOOLEAN'')] = Inr f \<and>
       enabled f = PBool False \<and> segment_rules f = PList [] \<and> name f = PStr [] \<and>
       feature_id f = PStr ''f1'' \<and> feature_type f = BOOLEAN"
  using Feature_defaults [of "[(''feature_id'', PStr ''f1''), (''type'', PStr ''BOOLEAN'')]"]
  by (auto simp: ConfigurationType_def)

text \<open>
  C5 as stated fails: a payload whose \<open>'type'\<close> is not the value of a member makes the
  constructor raise \<open>ValueError\<close>, so no field takes any value.
\<close>

theorem Feature_unknown_type_raises:
  "Feature [(''feature_id'', PStr ''f1''), (''type'', PStr ''DATE'')] = Inl ValueError"
  by (simp add: Feature_def ConfigurationType_def dict_get_none_def dict_get_def)

text \<open>
  C1. When \<open>entity_id\<close> is \<open>None\<close> or the empty string, \<open>get_current_value\<close>
  returns \<open>None\<close> and raises nothing, the feature object is as before, and the world
  is as before but for one error entry in the log: the record of handler calls has not
  grown, so neither \<open>ConfigurationHandler.get_instance\<close> nor \<open>feature_evaluation\<close>
  was called.
\<close>

theorem get_current_value_without_entity_id:
  assumes "entity_id = None \<or> entity_id = Some []"
  shows "get_current_value feature_evaluation self entity_id entity_attributes w =
     (Inr PNone, self,
      w\<lparr>log := log w @
           [LogErrorText ''A valid entity id should be passed for this method.'']\<rparr>)"
  using assms by (auto simp: get_current_value_def)

text \<open>
  The theorem at the empty entity id, for an enabled boolean feature and an evaluation
  that would have returned the feature's enabled value.
\<close>

theorem get_current_value_without_entity_id_witness:
  "get_current_value (\<lambda>f e a h. (Inr (enabled_value f), f, h))
     \<lparr> enabled = PBool True, name = PStr ''f1'', feature_id = PStr ''f1'',
       segment_rules = PList [], feature_data = [], feature_type = BOOLEAN,
       disabled_value = PBool False, enabled_value = PBool True \<rparr>
     (Some []) [] (fresh_world (empty_cache :: unit cache)) =
   (Inr PNone,
    \<lparr> enabled = PBool True, name = PStr ''f1'', feature_id = PStr ''f1'',
      segment_rules = PList [], feature_data = [], feature_type = BOOLEAN,
      disabled_value = PBool False, enabled_value = PBool True \<rparr>,
    (fresh_world empty_cache)
      \<lparr>log := [LogErrorText ''A valid entity id should be passed for this method.'']\<rparr>)"
  using get_current_value_without_entity_id
    [of "Some []" "\<lambda>f e a h. (Inr (enabled_value f), f, h)"
      "\<lparr> enabled = PBool True, name = PStr ''f1'', feature_id = PStr ''f1'',
         segment_rules = PList [], feature_data = [], feature_type = BOOLEAN,
         disabled_value = PBool False, enabled_value = PBool True \<rparr>"
      "[]" "fresh_world (empty_cache :: unit cache)"]
  by (simp add: fresh_world_def)

section \<open>Properties of the facade\<close>

lemma delegate_read_before_setup:
  assumes "\<not> (is_initialized (session w) \<and> is_initialized_configuration (session w))"
  shows "delegate_read c f w =
           (Inr None, w\<lparr>log := log w @ [LogError COLLECTION_INIT_ERROR]\<rparr>)"
  using assms unfolding delegate_read_def Logger_error_def by auto

text \<open>
  C3. When \<open>region\<close>, \<open>guid\<close> or \<open>apikey\<close> fails the validation, \<open>init\<close>
  returns normally and the world is as before but for one error entry in the log
  (the message of the first argument that fails, in the order region, apikey, guid):
  the fields of the session, among them the credentials, the initialized flag and the
  handler reference, keep their values, and no handler method is called.
\<close>

theorem init_rejects_invalid_arguments:
  assumes "\<not> validate_string region_arg \<or> \<not> validate_string guid_arg \<or>
           \<not> validate_string apikey_arg"
  shows "\<exists>m. (m = REGION_ERROR \<or> m = APIKEY_ERROR \<or> m = GUID_ERROR) \<and>
           init ops region_arg guid_arg apikey_arg w =
             (Inr (), w\<lparr>log := log w @ [LogError m]\<rparr>)"
  using assms by (auto simp: init_def Logger_error_def)

text \<open>The theorem at the first call of the repository's test: the region is \<open>None\<close>.\<close>

theorem init_rejects_invalid_arguments_witness:
  "\<not> validate_string None \<and>
   init (cache_handler None) None (Some ''guid_value'') (Some ''apikey_value'')
     (fresh_world (empty_cache :: unit cache)) =
   (Inr (), (fresh_world empty_cache)\<lparr>log := [LogError REGION_ERROR]\<rparr>)"
  using init_rejects_invalid_arguments [of None "Some ''guid_value''" "Some ''apikey_value''"
      "cache_handler None" "fresh_world (empty_cache :: unit cache)"]
  by (simp add: validate_string_def init_def Logger_error_def fresh_world_def)

section \<open>Loading, and reading after a failed set context\<close>

text \<open>
  The facade calls are their cut versions, run to the end: nothing happens between the
  call of \<open>load_data\<close> and its return.
\<close>

lemma load_data_now_cut:
  "load_data_now ops w = complete ops (begin_load w)"
  by (simp add: load_data_now_def begin_load_def complete_def end_load_def call_handler_def
      Let_def split: option.splits)

lemma complete_simps:
  "complete ops (Inr False, w) = (Inr (), w)"
  "complete ops (Inl e, w) = (Inl e, w)"
  by (simp_all add: complete_def)

lemma fetch_configurations_cut:
  "fetch_configurations ops w = complete ops (fetch_configurations_begin w)"
  by (simp add: fetch_configurations_def fetch_configurations_begin_def load_data_now_cut
      complete_simps)

lemma set_context_cut:
  "set_context ops collection_id environment_id configuration_file live w =
   complete ops (set_context_begin ops collection_id environment_id configuration_file live w)"
  unfolding set_context_def set_context_begin_def load_data_now_cut Let_def
  by (simp add: complete_simps split: option.splits)

lemma load_data_now_loading:
  "is_loading (session w) \<Longrightarrow> load_data_now ops w = (Inr (), w)"
  by (simp add: load_data_now_def)

lemma load_data_now_idle:
  "\<not> is_loading (session w) \<Longrightarrow> configuration_handler_instance (session w) \<noteq> None \<Longrightarrow>
   load_data_now ops w =
     (Inr (), w\<lparr>handler := load_data ops (handler w), calls := calls w @ [HLoadData]\<rparr>)"
  by (auto simp: load_data_now_def call_handler_def Let_def)

lemma delegate_read_session:
  "session (snd (delegate_read c f w)) = session w"
  by (simp add: delegate_read_def call_handler_def Logger_error_def split: option.splits)

lemma delegate_read_bound:
  "\<not> is_set_context_call c \<Longrightarrow>
   handler_bound (snd (delegate_read c f w)) = handler_bound w"
  by (simp add: delegate_read_def call_handler_def Logger_error_def handler_bound_def
      split: option.splits)

lemma init_session:
  "session (snd (init ops r g a w)) =
     (if validate_string r \<and> validate_string a \<and> validate_string g
      then (session w)\<lparr>apikey := a, region := r, guid := g, is_initialized := True,
             is_loading := False,
             configuration_handler_instance := Some ConfigurationHandler_instance\<rparr>
      else session w)"
  by (simp add: init_def Logger_error_def setup_configuration_handler_def call_handler_def Let_def)

lemma begin_load_session:
  "session (snd (begin_load w)) = (session w)\<lparr>is_loading := True\<rparr>"
  by (auto simp: begin_load_def Let_def split: option.splits)

lemma begin_load_began:
  "fst (begin_load w) = Inr True \<longleftrightarrow>
     \<not> is_loading (session w) \<and> configuration_handler_instance (session w) \<noteq> None"
  by (auto simp: begin_load_def Let_def split: option.splits)

lemma fetch_configurations_begin_session:
  "session (snd (fetch_configurations_begin w)) = session w \<or>
   session (snd (fetch_configurations_begin w)) = (session w)\<lparr>is_loading := True\<rparr>"
  by (simp add: fetch_configurations_begin_def begin_load_session Logger_error_def)

lemma set_context_begin_session:
  "session (snd (set_context_begin ops c e f l w)) = session w \<or>
   session (snd (set_context_begin ops c e f l w)) =
     (session w)\<lparr>is_initialized_configuration := True\<rparr> \<or>
   session (snd (set_context_begin ops c e f l w)) =
     (session w)\<lparr>is_initialized_configuration := True, is_loading := True\<rparr>"
  by (auto simp: set_context_begin_def begin_load_session Logger_error_def call_handler_def
      Let_def split: option.splits)

lemma fetch_configurations_begin_began:
  "fst (fetch_configurations_begin w) = Inr True \<Longrightarrow> \<not> is_loading (session w)"
  by (auto simp: fetch_configurations_begin_def begin_load_began split: if_splits)

lemma set_context_begin_began:
  "fst (set_context_begin ops c e f l w) = Inr True \<Longrightarrow> \<not> is_loading (session w)"
  by (auto simp: set_context_begin_def begin_load_began call_handler_def Let_def
      split: if_splits option.splits)

lemma began_sets_loading_fetch:
  "fst (fetch_configurations_begin w) = Inr True \<Longrightarrow>
   is_loading (session (snd (fetch_configurations_begin w)))"
  by (auto simp: fetch_configurations_begin_def begin_load_session split: if_splits)

lemma began_sets_loading_set_context:
  "fst (set_context_begin ops c e f l w) = Inr True \<Longrightarrow>
   is_loading (session (snd (set_context_begin ops c e f l w)))"
  by (auto simp: set_context_begin_def begin_load_session Let_def split: if_splits option.splits)

lemma loading_stays_fetch:
  "is_loading (session w) \<Longrightarrow> is_loading (session (snd (fetch_configurations_begin w)))"
  using fetch_configurations_begin_session [of w] by auto

lemma loading_stays_set_context:
  "is_loading (session w) \<Longrightarrow> is_loading (session (snd (set_context_begin ops c e f l w)))"
  using set_context_begin_session [of ops c e f l w] by auto


text \<open>
  With no \<open>init\<close> in between, a load in flight keeps the flag set, and the flag keeps
  a second load from starting.
\<close>

lemma step_one_in_flight:
  assumes inv: "in_flight c \<le> 1" "in_flight c = 1 \<longrightarrow> is_loading (session (world_of c))"
    and ok: "no_init_in_flight ops [ev] c"
  shows "in_flight (step ops ev c) \<le> 1 \<and>
         (in_flight (step ops ev c) = 1 \<longrightarrow> is_loading (session (world_of (step ops ev c))))"
proof (cases ev)
  case (EInit r g a)
  show ?thesis
  proof (cases "validate_string r \<and> validate_string a \<and> validate_string g")
    case True
    with ok EInit have "in_flight c = 0" by simp
    then show ?thesis using EInit by simp
  next
    case False
    then show ?thesis using inv EInit by (auto simp: init_session)
  qed
next
  case (ESetContext ci ei f l)
  let ?r = "set_context_begin ops ci ei f l (world_of c)"
  show ?thesis
  proof (cases "fst ?r = Inr True")
    case True
    from set_context_begin_began [OF True] inv have "in_flight c = 0" by auto
    then show ?thesis
      using ESetContext True began_sets_loading_set_context [OF True]
      by (simp add: enter_def)
  next
    case False
    then show ?thesis
      using ESetContext inv loading_stays_set_context [of "world_of c" ops ci ei f l]
      by (auto simp: enter_def)
  qed
next
  case EFetch
  let ?r = "fetch_configurations_begin (world_of c)"
  show ?thesis
  proof (cases "fst ?r = Inr True")
    case True
    from fetch_configurations_begin_began [OF True] inv have "in_flight c = 0" by auto
    then show ?thesis
      using EFetch True began_sets_loading_fetch [OF True]
      by (simp add: enter_def)
  next
    case False
    then show ?thesis
      using EFetch inv loading_stays_fetch [of "world_of c"]
      by (auto simp: enter_def)
  qed
next
  case ELoadReturns
  then show ?thesis using inv by auto
next
  case (EGetFeature fid)
  then show ?thesis using inv by (simp add: get_feature_def delegate_read_session)
next
  case EGetFeatures
  then show ?thesis using inv by (simp add: get_features_def delegate_read_session)
next
  case (EGetProperty pid)
  then show ?thesis using inv by (simp add: get_property_def delegate_read_session)
next
  case EGetProperties
  then show ?thesis using inv by (simp add: get_properties_def delegate_read_session)
qed

lemma run_one_in_flight:
  assumes "in_flight c \<le> 1" "in_flight c = 1 \<longrightarrow> is_loading (session (world_of c))"
    and "no_init_in_flight ops evs c"
  shows "in_flight (run ops evs c) \<le> 1"
  using assms unfolding run_def
proof (induction evs arbitrary: c)
  case Nil
  then show ?case by simp
next
  case (Cons ev evs)
  from Cons.prems(3) have ok: "no_init_in_flight ops [ev] c"
    and rest: "no_init_in_flight ops evs (step ops ev c)"
    by simp_all
  from step_one_in_flight [OF Cons.prems(1,2) ok]
  have "in_flight (step ops ev c) \<le> 1"
    and "in_flight (step ops ev c) = 1 \<longrightarrow> is_loading (session (world_of (step ops ev c)))"
    by simp_all
  from Cons.IH [OF this rest] show ?case by simp
qed


lemma calls_complete_not_began:
  "fst r \<noteq> Inr True \<Longrightarrow> snd (complete ops r) = snd r"
  by (cases "fst r") (auto simp: complete_def)

lemma fetch_configurations_begin_loading:
  "is_loading (session w) \<Longrightarrow>
   fst (fetch_configurations_begin w) = Inr False \<and>
   calls (snd (fetch_configurations_begin w)) = calls w \<and>
   handler (snd (fetch_configurations_begin w)) = handler w"
  by (simp add: fetch_configurations_begin_def begin_load_def Logger_error_def)

lemma set_context_begin_loading:
  "is_loading (session w) \<Longrightarrow>
   fst (set_context_begin ops c e f l w) \<noteq> Inr True \<and>
   filter (\<lambda>x. x = HLoadData) (calls (snd (set_context_begin ops c e f l w))) =
   filter (\<lambda>x. x = HLoadData) (calls w)"
  by (auto simp: set_context_begin_def begin_load_def Logger_error_def call_handler_def Let_def
      split: option.splits)

text \<open>
  C6, as amended. While the loading flag is set, \<open>fetch_configurations\<close> returns
  without calling the handler, and \<open>set_context\<close> returns without calling
  \<open>load_data\<close>; both leave the flag set. In every run of a fresh session in which
  facade calls interleave only at the call of \<open>load_data\<close>, and in which no \<open>init\<close>
  with valid arguments happens while a load is in flight, at most one load is in flight.
\<close>

theorem load_requests_while_loading:
  "(is_loading (session w) \<longrightarrow>
      calls (snd (fetch_configurations ops w)) = calls w \<and>
      handler (snd (fetch_configurations ops w)) = handler w \<and>
      is_loading (session (snd (fetch_configurations ops w))) \<and>
      filter (\<lambda>x. x = HLoadData)
        (calls (snd (set_context ops collection_id environment_id configuration_file live w))) =
      filter (\<lambda>x. x = HLoadData) (calls w) \<and>
      is_loading
        (session (snd (set_context ops collection_id environment_id configuration_file live w)))) \<and>
   (no_init_in_flight ops evs (start h) \<longrightarrow> in_flight (run ops evs (start h)) \<le> 1)"
proof -
  have seq: "calls (snd (fetch_configurations ops w)) = calls w \<and>
      handler (snd (fetch_configurations ops w)) = handler w \<and>
      is_loading (session (snd (fetch_configurations ops w))) \<and>
      filter (\<lambda>x. x = HLoadData)
        (calls (snd (set_context ops collection_id environment_id configuration_file live w))) =
      filter (\<lambda>x. x = HLoadData) (calls w) \<and>
      is_loading
        (session (snd (set_context ops collection_id environment_id configuration_file live w)))"
    if l: "is_loading (session w)"
  proof -
    have f: "snd (fetch_configurations ops w) = snd (fetch_configurations_begin w)"
      unfolding fetch_configurations_cut
      by (rule calls_complete_not_began)
         (simp add: fetch_configurations_begin_loading [OF l])
    have s: "snd (set_context ops collection_id environment_id configuration_file live w) =
             snd (set_context_begin ops collection_id environment_id configuration_file live w)"
      unfolding set_context_cut
      by (rule calls_complete_not_began)
         (simp add: set_context_begin_loading
            [OF l, of ops collection_id environment_id configuration_file live])
    show ?thesis
      unfolding f s
      using fetch_configurations_begin_loading [OF l]
        set_context_begin_loading [OF l, of ops collection_id environment_id configuration_file live]
        loading_stays_fetch [OF l]
        loading_stays_set_context [OF l, of ops collection_id environment_id configuration_file live]
      by simp
  qed
  have "in_flight (run ops evs (start h)) \<le> 1" if "no_init_in_flight ops evs (start h)"
    by (rule run_one_in_flight [OF _ _ that]) (simp_all add: start_def)
  with seq show ?thesis by blast
qed

lemma example_in_flight:
  "is_loading (session (world_of (run example_handler [example_init, example_set_context]
      (start empty_cache))))"
  "no_init_in_flight example_handler [example_init, example_set_context, EFetch, ELoadReturns]
     (start empty_cache)"
  by code_simp+

text \<open>
  The theorem on the session whose \<open>set_context\<close> is inside \<open>load_data\<close>, and on
  the run in which a \<open>fetch_configurations\<close> arrives before that load returns.
\<close>

theorem load_requests_while_loading_witness:
  "calls (snd (fetch_configurations example_handler
      (world_of (run example_handler [example_init, example_set_context] (start empty_cache))))) =
   calls (world_of (run example_handler [example_init, example_set_context] (start empty_cache))) \<and>
   in_flight (run example_handler [example_init, example_set_context, EFetch, ELoadReturns]
     (start empty_cache)) \<le> 1"
  using load_requests_while_loading
    [of "world_of (run example_handler [example_init, example_set_context] (start empty_cache))"
      example_handler None None None None
      "[example_init, example_set_context, EFetch, ELoadReturns]" empty_cache]
    example_in_flight
  by blast

text \<open>
  C6 as stated fails: \<open>init\<close> clears the loading flag, so after an \<open>init\<close> that
  arrives while the load of \<open>set_context\<close> is in flight, \<open>fetch_configurations\<close>
  starts a second load.
\<close>

theorem two_loads_in_flight:
  "in_flight (run example_handler [example_init, example_set_context, example_init, EFetch]
     (start empty_cache)) = 2"
  by code_simp

text \<open>
  In every run of a fresh session: the handler reference is set once \<open>init\<close> has
  completed; once the handler's \<open>set_context\<close> has been called, both flags are set;
  and the loading flag is set only while a load is in flight.
\<close>

lemma step_setup_invariant:
  assumes "is_initialized (session (world_of c)) \<longrightarrow>
             configuration_handler_instance (session (world_of c)) \<noteq> None"
    and "handler_bound (world_of c) \<longrightarrow>
           is_initialized (session (world_of c)) \<and>
           is_initialized_configuration (session (world_of c))"
    and "is_loading (session (world_of c)) \<longrightarrow> 1 \<le> in_flight c"
  shows "(is_initialized (session (world_of (step ops ev c))) \<longrightarrow>
            configuration_handler_instance (session (world_of (step ops ev c))) \<noteq> None) \<and>
         (handler_bound (world_of (step ops ev c)) \<longrightarrow>
            is_initialized (session (world_of (step ops ev c))) \<and>
            is_initialized_configuration (session (world_of (step ops ev c)))) \<and>
         (is_loading (session (world_of (step ops ev c))) \<longrightarrow> 1 \<le> in_flight (step ops ev c))"
proof (cases ev)
  case (EInit r g a)
  then show ?thesis using assms
    by (auto simp: init_def setup_configuration_handler_def call_handler_def Logger_error_def
        handler_bound_def Let_def)
next
  case (ESetContext ci ei f l)
  then show ?thesis using assms
    by (auto simp: set_context_begin_def begin_load_def call_handler_def Logger_error_def
        enter_def handler_bound_def Let_def split: option.splits if_splits)
next
  case EFetch
  then show ?thesis using assms
    by (auto simp: fetch_configurations_begin_def begin_load_def Logger_error_def
        enter_def handler_bound_def Let_def split: option.splits if_splits)
next
  case ELoadReturns
  then show ?thesis using assms
    by (auto simp: end_load_def handler_bound_def)
next
  case (EGetFeature fid)
  then show ?thesis using assms
    by (simp add: get_feature_def delegate_read_session delegate_read_bound)
next
  case EGetFeatures
  then show ?thesis using assms
    by (simp add: get_features_def delegate_read_session delegate_read_bound)
next
  case (EGetProperty pid)
  then show ?thesis using assms
    by (simp add: get_property_def delegate_read_session delegate_read_bound)
next
  case EGetProperties
  then show ?thesis using assms
    by (simp add: get_properties_def delegate_read_session delegate_read_bound)
qed

lemma run_setup_invariant:
  assumes "is_initialized (session (world_of c)) \<longrightarrow>
             configuration_handler_instance (session (world_of c)) \<noteq> None"
    and "handler_bound (world_of c) \<longrightarrow>
           is_initialized (session (world_of c)) \<and>
           is_initialized_configuration (session (world_of c))"
    and "is_loading (session (world_of c)) \<longrightarrow> 1 \<le> in_flight c"
  shows "(is_initialized (session (world_of (run ops evs c))) \<longrightarrow>
            configuration_handler_instance (session (world_of (run ops evs c))) \<noteq> None) \<and>
         (handler_bound (world_of (run ops evs c)) \<longrightarrow>
            is_initialized (session (world_of (run ops evs c))) \<and>
            is_initialized_configuration (session (world_of (run ops evs c)))) \<and>
         (is_loading (session (world_of (run ops evs c))) \<longrightarrow> 1 \<le> in_flight (run ops evs c))"
  using assms unfolding run_def
proof (induction evs arbitrary: c)
  case Nil
  then show ?case by simp
next
  case (Cons ev evs)
  from step_setup_invariant [OF Cons.prems, of ops ev]
  have "is_initialized (session (world_of (step ops ev c))) \<longrightarrow>
            configuration_handler_instance (session (world_of (step ops ev c))) \<noteq> None"
    and "handler_bound (world_of (step ops ev c)) \<longrightarrow>
            is_initialized (session (world_of (step ops ev c))) \<and>
            is_initialized_configuration (session (world_of (step ops ev c)))"
    and "is_loading (session (world_of (step ops ev c))) \<longrightarrow> 1 \<le> in_flight (step ops ev c)"
    by blast+
  from Cons.IH [OF this] show ?case by simp
qed

lemma start_setup_invariant:
  "(is_initialized (session (world_of (run ops evs (start h)))) \<longrightarrow>
      configuration_handler_instance (session (world_of (run ops evs (start h)))) \<noteq> None) \<and>
   (handler_bound (world_of (run ops evs (start h))) \<longrightarrow>
      is_initialized (session (world_of (run ops evs (start h)))) \<and>
      is_initialized_configuration (session (world_of (run ops evs (start h))))) \<and>
   (is_loading (session (world_of (run ops evs (start h)))) \<longrightarrow>
      1 \<le> in_flight (run ops evs (start h)))"
  by (rule run_setup_invariant)
     (simp_all add: start_def fresh_world_def new_app_configuration_def handler_bound_def)

lemma fetch_configurations_idle:
  "is_initialized (session w) \<Longrightarrow> is_initialized_configuration (session w) \<Longrightarrow>
   \<not> is_loading (session w) \<Longrightarrow> configuration_handler_instance (session w) \<noteq> None \<Longrightarrow>
   fetch_configurations ops w =
     (Inr (), w\<lparr>handler := load_data ops (handler w), calls := calls w @ [HLoadData]\<rparr>)"
  by (simp add: fetch_configurations_def load_data_now_idle)

lemma fetch_configurations_loading:
  "is_initialized (session w) \<Longrightarrow> is_initialized_configuration (session w) \<Longrightarrow>
   is_loading (session w) \<Longrightarrow> fetch_configurations ops w = (Inr (), w)"
  by (simp add: fetch_configurations_def load_data_now_loading)

lemma fetch_configurations_unset:
  "\<not> (is_initialized (session w) \<and> is_initialized_configuration (session w)) \<Longrightarrow>
   fetch_configurations ops w =
     (Inr (), w\<lparr>log := log w @ [LogError COLLECTION_INIT_ERROR]\<rparr>)"
  by (auto simp: fetch_configurations_def Logger_error_def)

text \<open>
  C8, as amended. In every run of a session from a fresh object: once a \<open>set_context\<close>
  call has got through to the handler (\<open>init\<close> has completed, and \<open>set_context\<close> has
  passed its checks and bound the update source), \<open>fetch_configurations\<close> makes exactly
  one call of \<open>load_data\<close> and changes nothing else if the loading flag is clear, as it
  is whenever no load is in flight, and returns at once, with no call, no log entry and
  no change, if the loading flag is set, which it is only while a load is in flight.
  While \<open>init\<close> has not completed, or no \<open>set_context\<close> call has passed the
  validation of its ids, it logs one error and changes nothing else.
\<close>

theorem fetch_configurations_after_setup:
  assumes c: "c = run ops evs (start h)" and w: "w = world_of c"
  shows "(handler_bound w \<and> \<not> is_loading (session w) \<longrightarrow>
            fetch_configurations ops w =
              (Inr (), w\<lparr>handler := load_data ops (handler w),
                         calls := calls w @ [HLoadData]\<rparr>)) \<and>
         (handler_bound w \<and> is_loading (session w) \<longrightarrow>
            1 \<le> in_flight c \<and> fetch_configurations ops w = (Inr (), w)) \<and>
         (in_flight c = 0 \<longrightarrow> \<not> is_loading (session w)) \<and>
         (\<not> (is_initialized (session w) \<and> is_initialized_configuration (session w)) \<longrightarrow>
            \<not> handler_bound w \<and>
            fetch_configurations ops w =
              (Inr (), w\<lparr>log := log w @ [LogError COLLECTION_INIT_ERROR]\<rparr>))"
proof -
  from start_setup_invariant [of ops evs h]
  have ref: "is_initialized (session w) \<longrightarrow> configuration_handler_instance (session w) \<noteq> None"
    and flags: "handler_bound w \<longrightarrow>
      is_initialized (session w) \<and> is_initialized_configuration (session w)"
    and flight: "is_loading (session w) \<longrightarrow> 1 \<le> in_flight c"
    unfolding c w by blast+
  have idle: "fetch_configurations ops w =
      (Inr (), w\<lparr>handler := load_data ops (handler w), calls := calls w @ [HLoadData]\<rparr>)"
    if "handler_bound w" "\<not> is_loading (session w)"
    using that flags ref by (simp add: fetch_configurations_idle)
  have loading: "1 \<le> in_flight c \<and> fetch_configurations ops w = (Inr (), w)"
    if "handler_bound w" "is_loading (session w)"
    using that flags flight by (simp add: fetch_configurations_loading)
  have none: "in_flight c = 0 \<longrightarrow> \<not> is_loading (session w)"
    using flight by auto
  have unset: "\<not> handler_bound w \<and> fetch_configurations ops w =
      (Inr (), w\<lparr>log := log w @ [LogError COLLECTION_INIT_ERROR]\<rparr>)"
    if "\<not> (is_initialized (session w) \<and> is_initialized_configuration (session w))"
    using that flags fetch_configurations_unset [OF that] by blast
  from idle loading none unset show ?thesis by blast
qed

lemma example_loaded_run:
  "world_of (run example_handler [example_init, example_set_context, ELoadReturns]
     (start empty_cache)) = example_loaded"
  "handler_bound example_loaded"
  "\<not> is_loading (session example_loaded)"
  by code_simp+

text \<open>The theorem on the session after \<open>init\<close> and \<open>set_context\<close>.\<close>

theorem fetch_configurations_after_setup_witness:
  "fetch_configurations example_handler example_loaded =
   (Inr (),
    example_loaded
      \<lparr>handler := load_data example_handler (handler example_loaded),
       calls := calls example_loaded @ [HLoadData]\<rparr>)"
  using fetch_configurations_after_setup
    [OF refl refl, of example_handler "[example_init, example_set_context, ELoadReturns]"
      empty_cache]
    example_loaded_run
  by simp

text \<open>
  C8 as stated fails: after \<open>init\<close> and \<open>set_context\<close> have completed, while the
  load of an earlier \<open>fetch_configurations\<close> is in flight, a call of
  \<open>fetch_configurations\<close> neither loads nor logs.
\<close>

theorem fetch_configurations_in_flight:
  "is_initialized (session (world_of (run example_handler
      [example_init, example_set_context, ELoadReturns, EFetch] (start empty_cache)))) \<and>
   is_initialized_configuration (session (world_of (run example_handler
      [example_init, example_set_context, ELoadReturns, EFetch] (start empty_cache)))) \<and>
   fetch_configurations example_handler
     (world_of (run example_handler
        [example_init, example_set_context, ELoadReturns, EFetch] (start empty_cache))) =
   (Inr (),
    world_of (run example_handler
        [example_init, example_set_context, ELoadReturns, EFetch] (start empty_cache)))"
  by code_simp

text \<open>
  A \<open>set_context\<close> that stops at the file check has already set the configuration
  flag, unlike one that stops at a check before it. With valid ids, on an initialized
  session, it calls no handler method, and a read that follows it is delegated to the
  handler, whatever the handler is.
\<close>

lemma reads_delegated_after_aborted_set_context:
  assumes "is_initialized (session w)" "configuration_handler_instance (session w) \<noteq> None"
    "validate_string collection_id" "validate_string environment_id"
    "w' = snd (set_context ops collection_id environment_id None (Some False) w)"
  shows "calls w' = calls w \<and> handler w' = handler w"
    and "delegate_read c f w' =
      (Inr (fst (f (handler w))),
       w'\<lparr>handler := snd (f (handler w)), calls := calls w @ [c]\<rparr>)"
  using assms
  by (auto simp: set_context_def Let_def Logger_error_def delegate_read_def call_handler_def)

text \<open>
  C2, on the code. After \<open>init\<close>, the call of \<open>set_context\<close> with valid ids,
  \<open>live_config_update_enabled = False\<close> and no configuration file returns normally,
  logs the file error, and calls no handler method: the update source is not bound and
  nothing is loaded. But the reads that follow do not return \<open>None\<close>:
  \<open>get_features\<close> and \<open>get_properties\<close> are delegated to the handler and return its
  empty collections.
\<close>

theorem aborted_set_context_then_reads:
  "set_context example_handler (Some ''collectionId'') (Some ''environmentId'') None
     (Some False) example_initialized = (Inr (), example_aborted) \<and>
   log example_aborted =
     log example_initialized @ [LogError CONFIGURATION_FILE_NOT_FOUND_ERROR] \<and>
   calls example_aborted = calls example_initialized \<and>
   handler example_aborted = handler example_initialized \<and>
   fst (get_features example_handler example_aborted) = Inr (Some []) \<and>
   fst (get_properties example_handler example_aborted) = Inr (Some [])"
  by code_simp

text \<open>
  C4, on the code. The session after \<open>init\<close> and that call of \<open>set_context\<close> has
  not completed \<open>set_context\<close>: the handler's \<open>set_context\<close> was never called. Yet
  none of the four reads logs an error: each calls the handler and returns its answer,
  which for \<open>get_features\<close> and \<open>get_properties\<close> is not \<open>None\<close>.
\<close>

theorem reads_after_aborted_set_context:
  "\<not> handler_bound example_aborted \<and>
   get_features example_handler example_aborted =
     (Inr (Some []), example_aborted\<lparr>calls := calls example_aborted @ [HGetFeatures]\<rparr>) \<and>
   get_feature example_handler (Some ''f1'') example_aborted =
     (Inr None,
      example_aborted\<lparr>calls := calls example_aborted @ [HGetFeature (Some ''f1'')]\<rparr>) \<and>
   get_properties example_handler example_aborted =
     (Inr (Some []), example_aborted\<lparr>calls := calls example_aborted @ [HGetProperties]\<rparr>) \<and>
   get_property example_handler (Some ''p1'') example_aborted =
     (Inr None,
      example_aborted\<lparr>calls := calls example_aborted @ [HGetProperty (Some ''p1'')]\<rparr>)"
  by code_simp

section \<open>Properties of the API manager\<close>

lemma prepare_data_plain:
  "\<not> nonempty_dict data \<Longrightarrow> prepare_data env data = Inr ([], data)"
  by (simp add: prepare_data_def)

lemma prepare_data_dict:
  "nonempty_dict data \<Longrightarrow> json_dumps env (payload_value (remove_null_values data)) = Inr text \<Longrightarrow>
   prepare_data env data =
     Inr ([(''Content-Type'', ''application/json''),
           (''User-Agent'', SDK_NAME env @ ''/'' @ version env)], DStr text)"
  by (simp add: prepare_data_def)

lemma prepare_data_raises:
  "nonempty_dict data \<Longrightarrow> json_dumps env (payload_value (remove_null_values data)) = Inl e \<Longrightarrow>
   prepare_data env data = Inl e"
  by (simp add: prepare_data_def)

lemma prepare_api_request_prepared:
  assumes "prepare_data env data = Inr (hs, d)"
  shows "fst (snd (prepare_api_request env method url data)) =
           [\<lparr> req_method = method, req_url = url, req_headers = hs, req_data = d \<rparr>]"
    and "prepare_api_request env method url data =
      (case base_service env \<lparr> req_method = method, req_url = url, req_headers = hs, req_data = d \<rparr> of
              Returns r \<Rightarrow> (Inr r, [\<lparr> req_method = method, req_url = url, req_headers = hs, req_data = d \<rparr>], [])
            | RaisesApiException code message \<Rightarrow>
                (Inr \<lparr> response = None, resp_headers = None, status_code = Some code \<rparr>, [\<lparr> req_method = method, req_url = url, req_headers = hs, req_data = d \<rparr>], [])
            | RaisesException text \<Rightarrow>
                (Inr \<lparr> response = None, resp_headers = None, status_code = Some 400 \<rparr>, [\<lparr> req_method = method, req_url = url, req_headers = hs, req_data = d \<rparr>],
                   [LogDebugText (''Error in service API call '' @ text)]))"
  using assms by (auto simp: prepare_api_request_def Let_def split: send_outcome.splits)

text \<open>
  C7, as amended. For every method and url, and every \<open>data\<close> that is \<open>None\<close>, a
  string, an empty dictionary, or a dictionary whose entries without the \<open>None\<close>
  values \<open>json.dumps\<close> can serialise, \<open>prepare_api_request\<close> makes one request and
  propagates no exception of it: if the request raises an \<open>ApiException\<close> the result
  is a \<open>DetailedResponse\<close> with the exception's code as status code and with
  \<open>response\<close> and \<open>headers\<close> \<open>None\<close>, and nothing is logged; if it raises
  another \<open>Exception\<close>, one debug entry is logged and the result is a
  \<open>DetailedResponse\<close> with status code 400; otherwise the result is the response.
\<close>

theorem prepare_api_request_returns:
  assumes "\<not> nonempty_dict data \<or>
           (\<exists>text. json_dumps env (payload_value (remove_null_values data)) = Inr text)"
  shows "\<exists>req. fst (snd (prepare_api_request env method url data)) = [req] \<and>
           (case base_service env req of
              Returns r \<Rightarrow> prepare_api_request env method url data = (Inr r, [req], [])
            | RaisesApiException code message \<Rightarrow>
                prepare_api_request env method url data =
                  (Inr \<lparr> response = None, resp_headers = None, status_code = Some code \<rparr>,
                   [req], [])
            | RaisesException text \<Rightarrow>
                prepare_api_request env method url data =
                  (Inr \<lparr> response = None, resp_headers = None, status_code = Some 400 \<rparr>,
                   [req], [LogDebugText (''Error in service API call '' @ text)]))"
proof -
  from assms obtain hs d where p: "prepare_data env data = Inr (hs, d)"
    by (cases "nonempty_dict data") (auto simp: prepare_data_plain prepare_data_dict)
  let ?req = "\<lparr> req_method = method, req_url = url, req_headers = hs, req_data = d \<rparr>"
  have "fst (snd (prepare_api_request env method url data)) = [?req]"
    by (rule prepare_api_request_prepared(1) [OF p])
  moreover have "case base_service env ?req of
              Returns r \<Rightarrow> prepare_api_request env method url data = (Inr r, [?req], [])
            | RaisesApiException code message \<Rightarrow>
                prepare_api_request env method url data =
                  (Inr \<lparr> response = None, resp_headers = None, status_code = Some code \<rparr>,
                   [?req], [])
            | RaisesException text \<Rightarrow>
                prepare_api_request env method url data =
                  (Inr \<lparr> response = None, resp_headers = None, status_code = Some 400 \<rparr>,
                   [?req], [LogDebugText (''Error in service API call '' @ text)])"
    unfolding prepare_api_request_prepared(2) [OF p]
    by (simp split: send_outcome.splits)
  ultimately show ?thesis by blast
qed

text \<open>
  C9, as amended. For every dictionary \<open>d\<close> that is not empty, if \<open>json.dumps\<close>
  serialises \<open>d\<close> without the keys whose value is \<open>None\<close> (every other key and
  value kept, in order), then \<open>prepare_api_request\<close> sends that text, with the headers
  \<open>Content-Type: application/json\<close> and \<open>User-Agent\<close>; a string is sent unchanged
  with no header added.
\<close>

theorem prepare_api_request_sends:
  "(d \<noteq> [] \<and> json_dumps env (PDict (filter (\<lambda>kv. snd kv \<noteq> PNone) d)) = Inr text \<longrightarrow>
      fst (snd (prepare_api_request env method url (DDict d))) =
        [\<lparr> req_method = method, req_url = url,
            req_headers = [(''Content-Type'', ''application/json''),
                           (''User-Agent'', SDK_NAME env @ ''/'' @ version env)],
            req_data = DStr text \<rparr>]) \<and>
   fst (snd (prepare_api_request env method url (DStr s))) =
     [\<lparr> req_method = method, req_url = url, req_headers = [], req_data = DStr s \<rparr>]"
proof -
  have "fst (snd (prepare_api_request env method url (DStr s))) =
     [\<lparr> req_method = method, req_url = url, req_headers = [], req_data = DStr s \<rparr>]"
    by (rule prepare_api_request_prepared(1)) (simp add: prepare_data_plain nonempty_dict_def)
  moreover have "fst (snd (prepare_api_request env method url (DDict d))) =
        [\<lparr> req_method = method, req_url = url,
            req_headers = [(''Content-Type'', ''application/json''),
                           (''User-Agent'', SDK_NAME env @ ''/'' @ version env)],
            req_data = DStr text \<rparr>]"
    if "d \<noteq> []" "json_dumps env (PDict (filter (\<lambda>kv. snd kv \<noteq> PNone) d)) = Inr text"
    by (rule prepare_api_request_prepared(1), rule prepare_data_dict)
       (use that in \<open>simp_all add: nonempty_dict_def remove_null_values_def payload_value_def\<close>)
  ultimately show ?thesis by blast
qed


lemma dumps_usage:
  "python_json_dumps (PDict [(''usage'', PInt 1)]) = Inr ''{\"usage\": 1}''"
  by code_simp

text \<open>
  The theorem at a dictionary with one \<open>None\<close> value, where the request raises an
  \<open>ApiException\<close> with code 404.
\<close>

theorem prepare_api_request_returns_witness:
  "prepare_api_request
     \<lparr> json_dumps = python_json_dumps,
       base_service = (\<lambda>req. RaisesApiException 404 None :: unit send_outcome),
       SDK_NAME = ''sdk'', version = ''1.0'' \<rparr>
     ''POST'' ''/usage'' (DDict [(''usage'', PInt 1), (''feature_id'', PNone)]) =
   (Inr \<lparr> response = None, resp_headers = None, status_code = Some 404 \<rparr>,
    [\<lparr> req_method = ''POST'', req_url = ''/usage'',
        req_headers = [(''Content-Type'', ''application/json''), (''User-Agent'', ''sdk/1.0'')],
        req_data = DStr ''{\"usage\": 1}'' \<rparr>],
    [])"
  using prepare_api_request_returns
    [of "DDict [(''usage'', PInt 1), (''feature_id'', PNone)]"
      "\<lparr> json_dumps = python_json_dumps,
         base_service = (\<lambda>req. RaisesApiException 404 None :: unit send_outcome),
         SDK_NAME = ''sdk'', version = ''1.0'' \<rparr>" "''POST''" "''/usage''"]
    dumps_usage
  by (auto simp: nonempty_dict_def remove_null_values_def payload_value_def
      prepare_api_request_def prepare_data_def)

text \<open>
  C7 as stated fails: \<open>json.dumps\<close> is called in front of the \<open>try\<close>, so for a
  dictionary that it cannot serialise, its \<open>TypeError\<close> reaches the caller.
\<close>

theorem prepare_api_request_propagates_TypeError:
  "fst (prepare_api_request
     \<lparr> json_dumps = python_json_dumps,
       base_service = (\<lambda>req. RaisesApiException 404 None :: unit send_outcome),
       SDK_NAME = ''sdk'', version = ''1.0'' \<rparr>
     ''POST'' ''/usage'' (DDict [(''usage'', PObject)])) = Inl TypeError"
  by (simp add: nonempty_dict_def remove_null_values_def payload_value_def
      prepare_api_request_def prepare_data_def)

text \<open>The theorem at a dictionary with one \<open>None\<close> value.\<close>

theorem prepare_api_request_sends_witness:
  "fst (snd (prepare_api_request
     \<lparr> json_dumps = python_json_dumps,
       base_service =
         (\<lambda>req. Returns \<lparr> response = Some (), resp_headers = Some [], status_code = Some 200 \<rparr>),
       SDK_NAME = ''sdk'', version = ''1.0'' \<rparr>
     ''POST'' ''/usage'' (DDict [(''usage'', PInt 1), (''feature_id'', PNone)]))) =
    [\<lparr> req_method = ''POST'', req_url = ''/usage'',
        req_headers = [(''Content-Type'', ''application/json''), (''User-Agent'', ''sdk/1.0'')],
        req_data = DStr ''{\"usage\": 1}'' \<rparr>]"
  using prepare_api_request_sends
    [of "[(''usage'', PInt 1), (''feature_id'', PNone)]"
      "\<lparr> json_dumps = python_json_dumps,
         base_service =
           (\<lambda>req. Returns \<lparr> response = Some (), resp_headers = Some [], status_code = Some 200 \<rparr>),
         SDK_NAME = ''sdk'', version = ''1.0'' \<rparr>" "''{\"usage\": 1}''" "''POST''" "''/usage''"]
    dumps_usage
  by simp

text \<open>
  C9 as stated fails: the empty dictionary is false as a condition, so it is handed on
  as it is, not serialised and with no \<open>Content-Type\<close> header.
\<close>

theorem prepare_api_request_empty_dict:
  "fst (snd (prepare_api_request
     \<lparr> json_dumps = python_json_dumps,
       base_service =
         (\<lambda>req. Returns \<lparr> response = Some (), resp_headers = Some [], status_code = Some 200 \<rparr>),
       SDK_NAME = ''sdk'', version = ''1.0'' \<rparr>
     ''POST'' ''/usage'' (DDict []))) =
    [\<lparr> req_method = ''POST'', req_url = ''/usage'', req_headers = [], req_data = DDict [] \<rparr>]"
  by (simp add: nonempty_dict_def prepare_api_request_def prepare_data_def)

section \<open>Properties of the singleton\<close>

lemma get_instance_Some:
  "app_instance p = Some r \<Longrightarrow> get_instance p = (Inr r, p)"
  by (simp add: get_instance_def)

lemma get_instance_sets:
  "\<exists>r. fst (get_instance p) = Inr r \<and> app_instance (snd (get_instance p)) = Some r"
  by (cases "app_instance p") (simp_all add: get_instance_def AppConfiguration_def)

lemma run_op_keeps_instance:
  "app_instance p = Some r \<Longrightarrow> app_instance (run_op a p) = Some r"
  by (cases a) (simp_all add: get_instance_def AppConfiguration_def)

lemma run_ops_keeps_instance:
  "app_instance p = Some r \<Longrightarrow> app_instance (run_ops os p) = Some r"
  unfolding run_ops_def
  by (induction os arbitrary: p) (simp_all add: run_op_keeps_instance)

lemma run_op_one_object:
  assumes "(app_instance p = None \<and> objects p = []) \<or>
           (app_instance p = Some 0 \<and> length (objects p) = 1)"
  shows "(app_instance (run_op a p) = None \<and> objects (run_op a p) = []) \<or>
         (app_instance (run_op a p) = Some 0 \<and> length (objects (run_op a p)) = 1)"
  using assms by (cases a) (auto simp: get_instance_def AppConfiguration_def)

lemma run_ops_one_object:
  assumes "(app_instance p = None \<and> objects p = []) \<or>
           (app_instance p = Some 0 \<and> length (objects p) = 1)"
  shows "(app_instance (run_ops os p) = None \<and> objects (run_ops os p) = []) \<or>
         (app_instance (run_ops os p) = Some 0 \<and> length (objects (run_ops os p)) = 1)"
  using assms unfolding run_ops_def
proof (induction os arbitrary: p)
  case Nil
  then show ?case by simp
next
  case (Cons a os)
  have "(app_instance (run_op a p) = None \<and> objects (run_op a p) = []) \<or>
        (app_instance (run_op a p) = Some 0 \<and> length (objects (run_op a p)) = 1)"
    by (rule run_op_one_object [OF Cons.prems])
  from Cons.IH [OF this] show ?case by simp
qed

text \<open>
  The constructor is its test followed by \<open>construct\<close>, and the three steps of a call
  of \<open>get_instance\<close>, run with nothing in between, are \<open>get_instance\<close>.
\<close>

lemma AppConfiguration_construct:
  "AppConfiguration p =
     (if app_instance p \<noteq> None then (Inl SingletonException, p)
      else (Inr (fst (construct p)), snd (construct p)))"
  by (simp add: AppConfiguration_def construct_def)

lemma get_instance_uninterrupted:
  "run_threads [Enter t, Check t, Assign t] (p, ts) =
     (snd (get_instance p),
      (case fst (get_instance p) of
         Inr r \<Rightarrow>
           (if app_instance p = None then [(t, Returned r), (t, Checked), (t, Entered)]
            else [(t, Returned r)])
       | Inl e \<Rightarrow> [(t, Raised e)]) @ ts)"
  by (cases "app_instance p")
     (simp_all add: run_threads_def get_instance_def AppConfiguration_construct construct_def)

text \<open>
  C10, as amended. Of calls that do not overlap (each call of \<open>get_instance\<close> and
  of the constructor runs to its end before the next starts): \<open>get_instance\<close> never
  raises, and a second call, whatever was done with the class and its objects in
  between, returns the object that the first call returned; from the start of the
  process on there is at most one \<open>AppConfiguration\<close> object; and the constructor,
  called while the class holds an instance, raises the singleton exception and creates
  nothing.
\<close>

theorem singleton_instance:
  "(\<exists>r. fst (get_instance p) = Inr r \<and>
        fst (get_instance (run_ops os (snd (get_instance p)))) = Inr r) \<and>
   length (objects (run_ops os process_start)) \<le> 1 \<and>
   (app_instance p \<noteq> None \<longrightarrow> AppConfiguration p = (Inl SingletonException, p))"
proof -
  obtain r where r: "fst (get_instance p) = Inr r"
    "app_instance (snd (get_instance p)) = Some r"
    using get_instance_sets by blast
  have "fst (get_instance (run_ops os (snd (get_instance p)))) = Inr r"
    by (simp add: get_instance_Some [OF run_ops_keeps_instance [OF r(2)]])
  moreover have "length (objects (run_ops os process_start)) \<le> 1"
    using run_ops_one_object [of process_start os] by (auto simp: process_start_def)
  moreover have "app_instance p \<noteq> None \<longrightarrow> AppConfiguration p = (Inl SingletonException, p)"
    by (simp add: AppConfiguration_def)
  ultimately show ?thesis using r(1) by blast
qed

text \<open>
  The theorem on a process that has asked for the instance once: a constructor call, a
  method call and a second \<open>get_instance\<close> follow.
\<close>

theorem singleton_instance_witness:
  "fst (get_instance process_start) = Inr 0 \<and>
   fst (get_instance (run_ops [Construct, MethodCall 0 (\<lambda>s. s\<lparr>is_initialized := True\<rparr>), GetInstance]
          (snd (get_instance process_start)))) = Inr 0 \<and>
   length (objects (run_ops [Construct, MethodCall 0 (\<lambda>s. s\<lparr>is_initialized := True\<rparr>), GetInstance]
      process_start)) \<le> 1 \<and>
   app_instance (snd (get_instance process_start)) \<noteq> None \<and>
   AppConfiguration (snd (get_instance process_start)) =
     (Inl SingletonException, snd (get_instance process_start))"
  using singleton_instance [of "snd (get_instance process_start)"
      "[Construct, MethodCall 0 (\<lambda>s. s\<lparr>is_initialized := True\<rparr>), GetInstance]"]
  by (simp add: get_instance_def AppConfiguration_def process_start_def run_ops_def)

text \<open>
  C10 as stated fails: no lock stands between the tests of \<open>__instance\<close> and its
  assignment. When two first calls of \<open>get_instance\<close> overlap so that both pass the
  two tests before either assigns, each constructs an object of its own and returns it:
  the two calls return different objects, and two instances exist.
\<close>

theorem overlapping_get_instance:
  "map_of (snd (run_threads [Enter 1, Enter 2, Check 1, Check 2, Assign 1, Assign 2]
      (process_start, []))) 1 = Some (Returned 0) \<and>
   map_of (snd (run_threads [Enter 1, Enter 2, Check 1, Check 2, Assign 1, Assign 2]
      (process_start, []))) 2 = Some (Returned 1) \<and>
   length (objects (fst (run_threads [Enter 1, Enter 2, Check 1, Check 2, Assign 1, Assign 2]
      (process_start, [])))) = 2"
  by code_simp

text \<open>
  In another order the second call does not return at all: it raises the singleton
  exception out of \<open>get_instance\<close>.
\<close>

lemma overlapping_get_instance_raises:
  "map_of (snd (run_threads [Enter 1, Enter 2, Check 1, Assign 1, Check 2]
      (process_start, []))) 2 = Some (Raised SingletonException)"
  by code_simp

end
